theory Spec2Isabelle
  imports Complex_Main "HOL-Library.Product_Lexorder"
begin

section \<open>The Ricart-Agrawala simulation of \<open>src/src/App.js\<close>\<close>

text \<open>
  The component \<open>RicartAgrawalaAlgorithm\<close> keeps three pieces of React state that matter
  for the protocol: the array \<open>nodes\<close>, the array \<open>messages\<close> and the component-wide
  counter \<open>logicalClock\<close>. Everything else that drives the protocol is a pending
  \<open>setTimeout\<close> callback. The embedding passes one record \<open>sys\<close> holding all of them.

  Conventions of the embedding:
  \<^item> every \<open>setNodes\<close>/\<open>setMessages\<close> updater runs once and atomically; where it matters
    whether React runs an updater at once or later (the release inside
    \<open>simulationStep\<close>), the choice is an input of the model;
  \<^item> \<open>newNodes[i]\<close> with \<open>i\<close> out of range is \<open>undefined\<close> in JavaScript and the property
    read that follows throws a \<open>TypeError\<close>; this is the value \<open>Inl TypeError\<close>;
  \<^item> JavaScript numbers that hold timestamps and timers are \<open>int\<close>; node ids are array
    indices, \<open>nat\<close>; message ids (\<open>Date.now() + Math.random()\<close>) are \<open>real\<close> and are
    supplied by the caller, one pair (id, deliveryTime) per call of \<open>sendMessage\<close>;
  \<^item> a JavaScript \<open>Set\<close> is a duplicate-free list in insertion order;
  \<^item> field names carry a prefix (\<open>n_\<close> for nodes, \<open>m_\<close> for messages), since record
    fields are global constants and both objects have an \<open>id\<close> and a \<open>timestamp\<close>.
\<close>

subsection \<open>Data\<close>

datatype MessageType = REQUEST | REPLY

datatype NodeState = RELEASED | WANTED | HELD

datatype error = TypeError

record node =
  n_id :: nat
  n_name :: string
  n_state :: NodeState
  n_timestamp :: int
  n_pendingReplies :: "nat list"
  n_deferredReplies :: "nat list"
  n_logicalClock :: int
  n_inCriticalSection :: bool
  n_criticalSectionTimer :: int
  n_requestQueue :: "nat list"

record message =
  m_id :: real
  m_from :: nat
  m_to :: nat
  m_type :: MessageType
  m_timestamp :: int
  m_delivered :: bool
  m_deliveryTime :: real

text \<open>
  The three kinds of callback the source hands to \<open>setTimeout\<close>:
  \<^item> \<open>DeliverTimer i\<close>: \<open>() => deliverMessage(newMessage.id)\<close> (in \<open>sendMessage\<close>);
  \<^item> \<open>ReplyTimer to from c\<close>: \<open>() => sendMessage(message.to, message.from, REPLY,
    receiver.logicalClock)\<close> (in \<open>processMessage\<close>). The callback holds the receiver
    \<^emph>\<open>object\<close> and reads its clock when it fires. With \<open>c = None\<close> that object is still
    the element \<open>message.to\<close> of \<open>nodes\<close>; after \<open>initializeNodes\<close> has replaced the
    array the old object is no longer written, and \<open>c = Some v\<close> records its clock;
  \<^item> \<open>RequestTimer c i\<close>: \<open>() => requestCriticalSection(index)\<close> (in \<open>simulationStep\<close>),
    where \<open>c\<close> is the value of the variable \<open>logicalClock\<close> in the closure concerned.
\<close>

datatype timer =
    DeliverTimer real
  | ReplyTimer nat nat "int option"
  | RequestTimer int nat

record sys =
  nodes :: "node list"
  messages :: "message list"
  logicalClock :: int
  isRunning :: bool
  interval :: "int option"
  timers :: "timer list"

type_synonym draw = "real \<times> real"

subsection \<open>JavaScript \<open>Set\<close> operations\<close>

definition set_add :: "nat \<Rightarrow> nat list \<Rightarrow> nat list" where
  "set_add x xs = (if x \<in> set xs then xs else xs @ [x])"

definition set_delete :: "nat \<Rightarrow> nat list \<Rightarrow> nat list" where
  "set_delete x xs = removeAll x xs"

definition set_size :: "nat list \<Rightarrow> nat" where
  "set_size xs = length xs"

subsection \<open>\<open>initializeNodes\<close>\<close>

fun string_of_nat :: "nat \<Rightarrow> string" where
  "string_of_nat n =
     (if n < 10 then [char_of (48 + n)]
      else string_of_nat (n div 10) @ [char_of (48 + n mod 10)])"

declare string_of_nat.simps [simp del]

definition newNode :: "nat \<Rightarrow> node" where
  "newNode i =
     \<lparr> n_id = i,
       n_name = ''Node '' @ string_of_nat i,
       n_state = RELEASED,
       n_timestamp = 0,
       n_pendingReplies = [],
       n_deferredReplies = [],
       n_logicalClock = 0,
       n_inCriticalSection = False,
       n_criticalSectionTimer = 0,
       n_requestQueue = [] \<rparr>"

text \<open>
  Replacing the node objects detaches them from the reply callbacks that are still
  pending: such a callback keeps the clock its receiver had at that moment.
\<close>

fun detach :: "node list \<Rightarrow> timer \<Rightarrow> timer" where
  "detach ns (ReplyTimer t f None) =
     ReplyTimer t f (Some (if t < length ns then n_logicalClock (ns ! t) else 0))"
| "detach ns tm = tm"

text \<open>
  \<open>Array.from({length: count}, ...)\<close> makes \<open>count\<close> elements, none for a count that
  is zero or negative. There is no test of \<open>count\<close> in the source.
\<close>

definition initializeNodes :: "int \<Rightarrow> sys \<Rightarrow> sys" where
  "initializeNodes count st =
     st \<lparr> nodes := map newNode [0 ..< nat count],
          messages := [],
          logicalClock := 0,
          timers := map (detach (nodes st)) (timers st) \<rparr>"

subsection \<open>\<open>updateLogicalClock\<close>\<close>

text \<open>
  \<^verbatim>\<open>
  const updateLogicalClock = (receivedTimestamp = 0) => {
    setLogicalClock(prev => Math.max(prev, receivedTimestamp) + 1);
    return Math.max(logicalClock, receivedTimestamp) + 1;
  };
  \<close>
  The updater reads \<open>prev\<close>, the stored state. The \<open>return\<close> reads the variable
  \<open>logicalClock\<close> of the closure, which is the state as it was when the component
  function that created this closure ran. The first argument \<open>captured\<close> is that value.
  The result is the returned number and the new state.
\<close>

definition updateLogicalClock :: "int \<Rightarrow> int \<Rightarrow> sys \<Rightarrow> int \<times> sys" where
  "updateLogicalClock captured receivedTimestamp st =
     (max captured receivedTimestamp + 1,
      st \<lparr> logicalClock := max (logicalClock st) receivedTimestamp + 1 \<rparr>)"

subsection \<open>\<open>sendMessage\<close>\<close>

definition sendMessage :: "draw \<Rightarrow> nat \<Rightarrow> nat \<Rightarrow> MessageType \<Rightarrow> int \<Rightarrow> sys \<Rightarrow> sys" where
  "sendMessage d fromId toId ty ts st =
     st \<lparr> messages := messages st @
            [\<lparr> m_id = fst d, m_from = fromId, m_to = toId, m_type = ty,
               m_timestamp = ts, m_delivered = False, m_deliveryTime = snd d \<rparr>],
          timers := timers st @ [DeliverTimer (fst d)] \<rparr>"

subsection \<open>\<open>requestCriticalSection\<close>\<close>

text \<open>The two \<open>for\<close> loops over \<open>i = 0 .. newNodes.length - 1\<close>.\<close>

fun addPending :: "nat \<Rightarrow> nat list \<Rightarrow> nat list \<Rightarrow> nat list" where
  "addPending nodeId [] ps = ps"
| "addPending nodeId (i # is) ps =
     addPending nodeId is (if i \<noteq> nodeId then set_add i ps else ps)"

fun sendRequests :: "(nat \<Rightarrow> draw) \<Rightarrow> nat \<Rightarrow> int \<Rightarrow> nat list \<Rightarrow> sys \<Rightarrow> sys" where
  "sendRequests env nodeId ts [] st = st"
| "sendRequests env nodeId ts (i # is) st =
     sendRequests env nodeId ts is
       (if i \<noteq> nodeId then sendMessage (env i) nodeId i REQUEST ts st else st)"

definition requestCriticalSection ::
  "int \<Rightarrow> (nat \<Rightarrow> draw) \<Rightarrow> nat \<Rightarrow> sys \<Rightarrow> error + sys" where
  "requestCriticalSection captured env nodeId st =
     (if length (nodes st) \<le> nodeId then Inl TypeError
      else
        let node = nodes st ! nodeId in
        if n_state node \<noteq> RELEASED then Inr st
        else
          let (newTimestamp, st1) = updateLogicalClock captured 0 st;
              node1 = node \<lparr> n_state := WANTED,
                             n_timestamp := newTimestamp,
                             n_logicalClock := newTimestamp,
                             n_pendingReplies := [] \<rparr>;
              node2 = node1 \<lparr> n_pendingReplies :=
                        addPending nodeId [0 ..< length (nodes st)] (n_pendingReplies node1) \<rparr>;
              st2 = sendRequests env nodeId newTimestamp [0 ..< length (nodes st)] st1
          in Inr (st2 \<lparr> nodes := (nodes st) [nodeId := node2] \<rparr>))"

subsection \<open>\<open>processMessage\<close> and \<open>deliverMessage\<close>\<close>

definition shouldReply :: "node \<Rightarrow> message \<Rightarrow> bool" where
  "shouldReply receiver message \<longleftrightarrow>
     n_state receiver = RELEASED \<or>
     (n_state receiver = WANTED \<and>
      (m_timestamp message < n_timestamp receiver \<or>
       (m_timestamp message = n_timestamp receiver \<and> m_from message < n_id receiver)))"

definition processMessage :: "message \<Rightarrow> sys \<Rightarrow> error + sys" where
  "processMessage message st =
     (if length (nodes st) \<le> m_to message then Inl TypeError
      else
        let receiver0 = nodes st ! m_to message;
            receiver = receiver0 \<lparr> n_logicalClock :=
                         max (n_logicalClock receiver0) (m_timestamp message) + 1 \<rparr>
        in
        (case m_type message of
           REQUEST \<Rightarrow>
             if shouldReply receiver message
             then Inr (st \<lparr> nodes := (nodes st) [m_to message := receiver],
                            timers := timers st @
                              [ReplyTimer (m_to message) (m_from message) None] \<rparr>)
             else Inr (st \<lparr> nodes := (nodes st) [m_to message :=
                              receiver \<lparr> n_deferredReplies :=
                                n_deferredReplies receiver @ [m_from message] \<rparr>] \<rparr>)
         | REPLY \<Rightarrow>
             let receiver1 = receiver \<lparr> n_pendingReplies :=
                               set_delete (m_from message) (n_pendingReplies receiver) \<rparr>;
                 receiver2 =
                   (if n_state receiver1 = WANTED \<and> set_size (n_pendingReplies receiver1) = 0
                    then receiver1 \<lparr> n_state := HELD,
                                     n_inCriticalSection := True,
                                     n_criticalSectionTimer := 3 \<rparr>
                    else receiver1)
             in Inr (st \<lparr> nodes := (nodes st) [m_to message := receiver2] \<rparr>)))"

definition markDelivered :: "real \<Rightarrow> message \<Rightarrow> message" where
  "markDelivered messageId m =
     (if m_id m = messageId then m \<lparr> m_delivered := True \<rparr> else m)"

definition deliverMessage :: "real \<Rightarrow> sys \<Rightarrow> error + sys" where
  "deliverMessage messageId st =
     (case find (\<lambda>m. m_id m = messageId) (messages st) of
        None \<Rightarrow> Inr st
      | Some message \<Rightarrow>
          if m_delivered message then Inr st
          else
            (case processMessage message st of
               Inl e \<Rightarrow> Inl e
             | Inr st1 \<Rightarrow>
                 Inr (st1 \<lparr> messages := map (markDelivered messageId) (messages st) \<rparr>)))"

subsection \<open>\<open>releaseCriticalSection\<close>\<close>

text \<open>
  \<open>node.deferredReplies.forEach(...)\<close>: the callback runs on the elements in order;
  \<open>j\<close> is the position, used only to name the draw of that call of \<open>sendMessage\<close>.
\<close>

fun sendReplies :: "(nat \<Rightarrow> draw) \<Rightarrow> nat \<Rightarrow> int \<Rightarrow> nat \<Rightarrow> nat list \<Rightarrow> sys \<Rightarrow> sys" where
  "sendReplies env nodeId ts j [] st = st"
| "sendReplies env nodeId ts j (deferredNodeId # ds) st =
     sendReplies env nodeId ts (Suc j) ds
       (sendMessage (env j) nodeId deferredNodeId REPLY ts st)"

definition releaseCriticalSection :: "(nat \<Rightarrow> draw) \<Rightarrow> nat \<Rightarrow> sys \<Rightarrow> error + sys" where
  "releaseCriticalSection env nodeId st =
     (if length (nodes st) \<le> nodeId then Inl TypeError
      else
        let node = nodes st ! nodeId in
        if n_state node \<noteq> HELD then Inr st
        else
          let node1 = node \<lparr> n_state := RELEASED,
                             n_inCriticalSection := False,
                             n_criticalSectionTimer := 0 \<rparr>;
              st1 = sendReplies env nodeId (n_logicalClock node1) 0 (n_deferredReplies node1) st;
              node2 = node1 \<lparr> n_deferredReplies := [] \<rparr>
          in Inr (st1 \<lparr> nodes := (nodes st) [nodeId := node2] \<rparr>))"

subsection \<open>The simulation driver\<close>

text \<open>
  \<open>simulationStep\<close> walks over the nodes once, inside a \<open>setNodes\<close> updater. The call
  \<open>releaseCriticalSection(index)\<close> made inside the walk hands React a further \<open>setNodes\<close>
  updater. React runs such an updater at once when no other update of the component is
  pending, and after the walk has returned otherwise. Run at once, it writes the node
  object inside the walk, and the test \<open>node.state === RELEASED\<close> that follows sees the
  released node, which can then be scheduled a request in the same tick. \<open>eager index\<close>
  says which of the two happens to the release of that node; the indices released
  later are collected in \<open>queued\<close>. \<open>rnd index\<close> is the outcome of \<open>Math.random() < 0.1\<close>
  for that node, and \<open>c\<close> the value of \<open>logicalClock\<close> in the closure of this
  \<open>simulationStep\<close>.
\<close>

fun walkNodes ::
  "(nat \<Rightarrow> bool) \<Rightarrow> int \<Rightarrow> (nat \<Rightarrow> bool) \<Rightarrow> (nat \<Rightarrow> nat \<Rightarrow> draw) \<Rightarrow>
   nat list \<Rightarrow> nat list \<Rightarrow> sys \<Rightarrow> error + (nat list \<times> sys)" where
  "walkNodes eager c rnd env [] queued st = Inr (queued, st)"
| "walkNodes eager c rnd env (index # rest) queued st =
     (let node = nodes st ! index;
          counting = (n_inCriticalSection node \<and> n_criticalSectionTimer node > 0);
          node1 = (if counting
                   then node \<lparr> n_criticalSectionTimer := n_criticalSectionTimer node - 1 \<rparr>
                   else node);
          st1 = st \<lparr> nodes := (nodes st) [index := node1] \<rparr>;
          expired = (counting \<and> n_criticalSectionTimer node1 = 0)
      in case (if expired \<and> eager index
               then releaseCriticalSection (env index) index st1
               else Inr st1) of
           Inl e \<Rightarrow> Inl e
         | Inr st2 \<Rightarrow>
             walkNodes eager c rnd env rest
               (if expired \<and> \<not> eager index then queued @ [index] else queued)
               (if n_state (nodes st2 ! index) = RELEASED \<and> rnd index
                then st2 \<lparr> timers := timers st2 @ [RequestTimer c index] \<rparr>
                else st2))"

fun releaseAll :: "(nat \<Rightarrow> nat \<Rightarrow> draw) \<Rightarrow> nat list \<Rightarrow> sys \<Rightarrow> error + sys" where
  "releaseAll env [] st = Inr st"
| "releaseAll env (index # rest) st =
     (case releaseCriticalSection (env index) index st of
        Inl e \<Rightarrow> Inl e
      | Inr st1 \<Rightarrow> releaseAll env rest st1)"

definition simulationStep ::
  "(nat \<Rightarrow> bool) \<Rightarrow> int \<Rightarrow> (nat \<Rightarrow> bool) \<Rightarrow> (nat \<Rightarrow> nat \<Rightarrow> draw) \<Rightarrow> sys \<Rightarrow> error + sys" where
  "simulationStep eager c rnd env st =
     (case walkNodes eager c rnd env [0 ..< length (nodes st)] [] st of
        Inl e \<Rightarrow> Inl e
      | Inr (queued, st1) \<Rightarrow> releaseAll env queued st1)"

text \<open>
  \<open>setInterval(simulationStep, speed)\<close> keeps the \<open>simulationStep\<close> of the render in
  which the button was pressed; \<open>interval\<close> holds the \<open>logicalClock\<close> of that render
  for as long as the interval is active.
\<close>

definition toggleSimulation :: "sys \<Rightarrow> sys" where
  "toggleSimulation st =
     (if isRunning st
      then st \<lparr> interval := None, isRunning := False \<rparr>
      else st \<lparr> interval := Some (logicalClock st), isRunning := True \<rparr>)"

definition changeNodeCount :: "int \<Rightarrow> sys \<Rightarrow> sys" where
  "changeNodeCount count st =
     initializeNodes count (st \<lparr> interval := None, isRunning := False \<rparr>)"

definition resetSimulation :: "sys \<Rightarrow> sys" where
  "resetSimulation st =
     initializeNodes (int (length (nodes st))) (st \<lparr> interval := None, isRunning := False \<rparr>)"

subsection \<open>Events\<close>

text \<open>
  A pending callback fires. \<open>d\<close> and \<open>env\<close> are the draws for the calls of
  \<open>sendMessage\<close> it makes. A reply callback whose receiver is still in \<open>nodes\<close>
  always finds it there, because \<open>initializeNodes\<close> detaches all of them; the
  \<open>TypeError\<close> branch is there for totality.
\<close>

fun fireTimer :: "draw \<Rightarrow> (nat \<Rightarrow> draw) \<Rightarrow> timer \<Rightarrow> sys \<Rightarrow> error + sys" where
  "fireTimer d env (DeliverTimer i) st = deliverMessage i st"
| "fireTimer d env (ReplyTimer t f (Some v)) st = Inr (sendMessage d t f REPLY v st)"
| "fireTimer d env (ReplyTimer t f None) st =
     (if length (nodes st) \<le> t then Inl TypeError
      else Inr (sendMessage d t f REPLY (n_logicalClock (nodes st ! t)) st))"
| "fireTimer d env (RequestTimer c i) st = requestCriticalSection c env i st"

datatype event =
    ToggleSimulation
  | ResetSimulation
  | ChangeNodeCount int
  | IntervalTick "nat \<Rightarrow> bool" "nat \<Rightarrow> bool" "nat \<Rightarrow> nat \<Rightarrow> draw"
  | ClickRequest "nat \<Rightarrow> draw" nat
  | ClickRelease "nat \<Rightarrow> draw" nat
  | Timeout nat draw "nat \<Rightarrow> draw"

text \<open>
  One event of the page. The click handlers belong to the current render, so their
  \<open>logicalClock\<close> is the stored one; the interval callback uses the value kept in
  \<open>interval\<close>. \<open>Timeout k\<close> fires the \<open>k\<close>-th pending callback and removes it. An event
  that cannot happen in the state (no interval, no such callback) changes nothing.
\<close>

fun step :: "event \<Rightarrow> sys \<Rightarrow> error + sys" where
  "step ToggleSimulation st = Inr (toggleSimulation st)"
| "step ResetSimulation st = Inr (resetSimulation st)"
| "step (ChangeNodeCount count) st = Inr (changeNodeCount count st)"
| "step (IntervalTick eager rnd env) st =
     (case interval st of
        None \<Rightarrow> Inr st
      | Some c \<Rightarrow> simulationStep eager c rnd env st)"
| "step (ClickRequest env nodeId) st = requestCriticalSection (logicalClock st) env nodeId st"
| "step (ClickRelease env nodeId) st = releaseCriticalSection env nodeId st"
| "step (Timeout k d env) st =
     (if k < length (timers st)
      then fireTimer d env (timers st ! k)
             (st \<lparr> timers := take k (timers st) @ drop (Suc k) (timers st) \<rparr>)
      else Inr st)"

fun run :: "event list \<Rightarrow> sys \<Rightarrow> error + sys" where
  "run [] st = Inr st"
| "run (ev # evs) st =
     (case step ev st of
        Inl e \<Rightarrow> Inl e
      | Inr st1 \<Rightarrow> run evs st1)"

text \<open>
  The state of a freshly mounted component: the \<open>useState\<close> defaults, then the effect
  \<open>initializeNodes(3)\<close>.
\<close>

definition unmounted :: sys where
  "unmounted = \<lparr> nodes = [], messages = [], logicalClock = 0,
                 isRunning = False, interval = None, timers = [] \<rparr>"

definition mounted :: sys where
  "mounted = initializeNodes 3 unmounted"

definition heldNodes :: "sys \<Rightarrow> nat list" where
  "heldNodes st = filter (\<lambda>i. n_state (nodes st ! i) = HELD) [0 ..< length (nodes st)]"

subsection \<open>Observers and concrete executions\<close>

definition heldIn :: "error + sys \<Rightarrow> nat list" where
  "heldIn r = (case r of Inl e \<Rightarrow> [] | Inr st \<Rightarrow> heldNodes st)"

definition clocksIn :: "error + sys \<Rightarrow> int list" where
  "clocksIn r = (case r of Inl e \<Rightarrow> [] | Inr st \<Rightarrow> map n_logicalClock (nodes st))"

definition statesIn :: "error + sys \<Rightarrow> NodeState list" where
  "statesIn r = (case r of Inl e \<Rightarrow> [] | Inr st \<Rightarrow> map n_state (nodes st))"

definition timestampsIn :: "error + sys \<Rightarrow> int list" where
  "timestampsIn r = (case r of Inl e \<Rightarrow> [] | Inr st \<Rightarrow> map n_timestamp (nodes st))"

definition sentIn :: "error + sys \<Rightarrow> (nat \<times> nat \<times> MessageType \<times> int) list" where
  "sentIn r =
     (case r of
        Inl e \<Rightarrow> []
      | Inr st \<Rightarrow> map (\<lambda>m. (m_from m, m_to m, m_type m, m_timestamp m)) (messages st))"

definition stateOf :: "error + sys \<Rightarrow> sys" where
  "stateOf r = (case r of Inl e \<Rightarrow> unmounted | Inr st \<Rightarrow> st)"

definition noDraws :: "nat \<Rightarrow> nat \<Rightarrow> draw" where
  "noDraws a b = (0, 0)"

definition draws :: "nat \<Rightarrow> nat \<Rightarrow> draw" where
  "draws base i = (real (base + i), 0)"

text \<open>
  An execution of the running simulation on three nodes, with a period of 1000 ms.
  Times in ms; every callback fires within the delay the source gives it (a request
  callback after less than 500, a delivery after 500 to 1500, a reply callback after
  100).
  \<^item> 0: the simulation is started while \<open>logicalClock\<close> is 0.
  \<^item> 1000: the interval lets node 1 request. 1100: node 1 requests.
  \<^item> 1600: nodes 0 and 2, both RELEASED, receive the REQUEST. 1700: their replies are
    sent.
  \<^item> 2000: the interval lets node 0 request. 2100: node 0 requests.
  \<^item> 2600: nodes 1 and 2 receive the REQUEST of node 0. 2700: their replies are sent.
  \<^item> 2800: node 1 receives its two replies.
  \<^item> 3000: the interval runs; node 1 has two ticks left.
  \<^item> 3200: node 0 receives its two replies.
\<close>

definition staleTrace :: "event list" where
  "staleTrace =
     [ToggleSimulation,
      IntervalTick (\<lambda>i. False) (\<lambda>i. i = 1) noDraws,
      Timeout 0 (0, 0) (draws 10),
      Timeout 0 (0, 0) (draws 0),
      Timeout 0 (0, 0) (draws 0),
      Timeout 0 (30, 0) (draws 0),
      Timeout 0 (32, 0) (draws 0),
      IntervalTick (\<lambda>i. False) (\<lambda>i. i = 0) noDraws,
      Timeout 2 (0, 0) (draws 20),
      Timeout 2 (0, 0) (draws 0),
      Timeout 2 (0, 0) (draws 0),
      Timeout 2 (31, 0) (draws 0),
      Timeout 2 (33, 0) (draws 0),
      Timeout 0 (0, 0) (draws 0),
      Timeout 0 (0, 0) (draws 0),
      IntervalTick (\<lambda>i. False) (\<lambda>i. False) noDraws,
      Timeout 0 (0, 0) (draws 0),
      Timeout 0 (0, 0) (draws 0)]"

text \<open>
  The same schedule with both requests made with the button, that is, with the
  \<open>logicalClock\<close> of the current render: node 0 gets timestamp 2, and node 1 defers.
\<close>

definition freshTrace :: "event list" where
  "freshTrace =
     [ClickRequest (draws 10) 1,
      Timeout 0 (0, 0) (draws 0),
      Timeout 0 (0, 0) (draws 0),
      Timeout 0 (30, 0) (draws 0),
      Timeout 0 (32, 0) (draws 0),
      ClickRequest (draws 20) 0,
      Timeout 2 (0, 0) (draws 0),
      Timeout 2 (0, 0) (draws 0),
      Timeout 2 (33, 0) (draws 0),
      Timeout 0 (0, 0) (draws 0),
      Timeout 0 (0, 0) (draws 0),
      Timeout 0 (0, 0) (draws 0)]"

text \<open>
  An execution by hand, every request made with the button of the current render:
  node 0 requests, nodes 1 and 2 receive the REQUEST, their replies are sent and
  delivered, node 0 holds the critical section.
\<close>

definition requestTrace :: "event list" where
  "requestTrace =
     [ClickRequest (draws 10) 0,
      Timeout 0 (0, 0) (draws 0),
      Timeout 0 (0, 0) (draws 0)]"

definition replyTrace :: "event list" where
  "replyTrace = requestTrace @ [Timeout 0 (30, 0) (draws 0)]"

definition heldTrace :: "event list" where
  "heldTrace =
     replyTrace @
     [Timeout 0 (31, 0) (draws 0),
      Timeout 0 (0, 0) (draws 0),
      Timeout 0 (0, 0) (draws 0)]"



definition deferTrace :: "event list" where
  "deferTrace = heldTrace @ [ClickRequest (draws 60) 1, Timeout 0 (0, 0) (draws 0)]"

definition deferReleaseTrace :: "event list" where
  "deferReleaseTrace = deferTrace @ [ClickRelease (draws 70) 0]"

definition wantedState :: sys where
  "wantedState = stateOf (run [ClickRequest (draws 10) 1] mounted)"

definition heldState :: sys where
  "heldState = stateOf (run heldTrace mounted)"

definition deferState :: sys where
  "deferState = stateOf (run deferTrace mounted)"

definition requestFrom :: "nat \<Rightarrow> nat \<Rightarrow> int \<Rightarrow> message" where
  "requestFrom f t ts =
     \<lparr> m_id = 5, m_from = f, m_to = t, m_type = REQUEST,
       m_timestamp = ts, m_delivered = False, m_deliveryTime = 0 \<rparr>"

definition replyFrom :: "nat \<Rightarrow> nat \<Rightarrow> int \<Rightarrow> message" where
  "replyFrom f t ts =
     \<lparr> m_id = 6, m_from = f, m_to = t, m_type = REPLY,
       m_timestamp = ts, m_delivered = False, m_deliveryTime = 0 \<rparr>"

definition onePendingState :: sys where
  "onePendingState = stateOf (processMessage (replyFrom 0 1 2) wantedState)"

definition deliveredRequest :: message where
  "deliveredRequest =
     \<lparr> m_id = 11, m_from = 0, m_to = 1, m_type = REQUEST,
       m_timestamp = 1, m_delivered = True, m_deliveryTime = 0 \<rparr>"

subsection \<open>The messages a request and a release emit\<close>

text \<open>
  The object literal of \<open>sendMessage\<close>, for the REQUEST that \<open>requestCriticalSection\<close>
  sends to node \<open>i\<close> and for the REPLY that \<open>releaseCriticalSection\<close> sends to the
  \<open>j\<close>-th deferred id \<open>d\<close>.
\<close>

definition requestTo :: "(nat \<Rightarrow> draw) \<Rightarrow> nat \<Rightarrow> int \<Rightarrow> nat \<Rightarrow> message" where
  "requestTo env nodeId ts i =
     \<lparr> m_id = fst (env i), m_from = nodeId, m_to = i, m_type = REQUEST,
       m_timestamp = ts, m_delivered = False, m_deliveryTime = snd (env i) \<rparr>"

definition replyTo :: "(nat \<Rightarrow> draw) \<Rightarrow> nat \<Rightarrow> int \<Rightarrow> nat \<times> nat \<Rightarrow> message" where
  "replyTo env nodeId ts jd =
     \<lparr> m_id = fst (env (fst jd)), m_from = nodeId, m_to = snd jd, m_type = REPLY,
       m_timestamp = ts, m_delivered = False, m_deliveryTime = snd (env (fst jd)) \<rparr>"

subsection \<open>Runs that issue no request\<close>



definition clocks :: "sys \<Rightarrow> int list" where
  "clocks st = map n_logicalClock (nodes st)"


definition requestedState :: sys where
  "requestedState = stateOf (run [ClickRequest (draws 10) 0] mounted)"

text \<open>
  The last tick of an occupancy: node 0 is HELD after \<open>heldTrace\<close>, the simulation is
  started, and at the third tick the timer reaches 0. \<open>eager\<close> says whether the release
  runs inside the walk; \<open>Math.random() < 0.1\<close> succeeds for node 0 at that tick.
\<close>

definition expiryTrace :: "bool \<Rightarrow> event list" where
  "expiryTrace eager =
     heldTrace @
     [ToggleSimulation,
      IntervalTick (\<lambda>i. eager) (\<lambda>i. False) noDraws,
      IntervalTick (\<lambda>i. eager) (\<lambda>i. False) noDraws,
      IntervalTick (\<lambda>i. eager) (\<lambda>i. i = 0) noDraws]"


definition replyMessage :: "draw \<Rightarrow> nat \<Rightarrow> nat \<Rightarrow> int \<Rightarrow> message" where
  "replyMessage d f t ts =
     \<lparr> m_id = fst d, m_from = f, m_to = t, m_type = REPLY,
       m_timestamp = ts, m_delivered = False, m_deliveryTime = snd d \<rparr>"

subsection \<open>Replying at once and deferring\<close>

text \<open>
  What \<open>processMessage\<close> can do with a REQUEST \<open>m\<close>, taking \<open>st\<close> to \<open>st'\<close>.
  \<open>repliesImmediately\<close>: the reply callback is the one new pending callback, nothing is
  deferred, and when that callback fires in \<open>st'\<close> it sends one REPLY from the receiver
  to the requester, carrying the receiver's clock, and changes no node.
  \<open>defersReply\<close>: no callback is scheduled and the requester is appended to the
  receiver's deferred replies.
\<close>

definition repliesImmediately :: "message \<Rightarrow> sys \<Rightarrow> sys \<Rightarrow> bool" where
  "repliesImmediately m st st' \<longleftrightarrow>
     timers st' = timers st @ [ReplyTimer (m_to m) (m_from m) None] \<and>
     n_deferredReplies (nodes st' ! m_to m) = n_deferredReplies (nodes st ! m_to m) \<and>
     (\<forall>d env. \<exists>st''.
        step (Timeout (length (timers st)) d env) st' = Inr st'' \<and>
        messages st'' = messages st' @
          [replyMessage d (m_to m) (m_from m) (n_logicalClock (nodes st' ! m_to m))] \<and>
        nodes st'' = nodes st' \<and>
        timers st'' = timers st @ [DeliverTimer (fst d)])"

definition defersReply :: "message \<Rightarrow> sys \<Rightarrow> sys \<Rightarrow> bool" where
  "defersReply m st st' \<longleftrightarrow>
     timers st' = timers st \<and>
     n_deferredReplies (nodes st' ! m_to m) =
       n_deferredReplies (nodes st ! m_to m) @ [m_from m]"

section \<open>Properties\<close>

subsection \<open>Mutual exclusion\<close>

text \<open>
  C1. The claim: in every reachable state at most one node is HELD. The source does
  not keep it. All requests issued by the running simulation go through the
  \<open>updateLogicalClock\<close> of one render, whose \<open>logicalClock\<close> stays what it was when
  the simulation was started; they all carry the same timestamp. Node 0 answers the
  REQUEST of node 1 while RELEASED and then requests with an equal timestamp; node 1
  compares \<open>(1, 0)\<close> with \<open>(1, 1)\<close> and answers too. At the end of \<open>staleTrace\<close> nodes 0
  and 1 are both HELD.
\<close>

theorem mutual_exclusion_broken_by_equal_timestamps:
  "heldIn (run staleTrace mounted) = [0, 1]"
  by code_simp

text \<open>
  On the same schedule with requests of the current render the timestamps are 1 and 2,
  node 1 defers its reply to node 0, and node 1 alone is HELD.
\<close>

lemma fresh_timestamps_on_same_schedule:
  "timestampsIn (run freshTrace mounted) = [2, 1, 0] \<and>
   statesIn (run freshTrace mounted) = [WANTED, HELD, RELEASED] \<and>
   heldIn (run freshTrace mounted) = [1] \<and>
   timers (stateOf (run freshTrace mounted)) = []"
  by code_simp

lemma stale_timestamps:
  "timestampsIn (run staleTrace mounted) = [1, 1, 0] \<and>
   statesIn (run staleTrace mounted) = [HELD, HELD, RELEASED] \<and>
   logicalClock (stateOf (run staleTrace mounted)) = 2"
  by code_simp

subsection \<open>The decision on a REQUEST\<close>

text \<open>
  C2. A receiver \<open>R\<close> that handles a REQUEST from \<open>S\<close> with timestamp \<open>T\<close> either
  replies at once (it schedules the reply callback, which sends a REPLY from \<open>R\<close> to
  \<open>S\<close> when it fires) or defers (it appends \<open>S\<close> to its deferred replies), never both.
  In state WANTED it replies exactly when \<open>(T, S)\<close> is lexicographically below
  \<open>(R.timestamp, R.id)\<close>; with equal timestamps, exactly when \<open>S\<close> is below \<open>R.id\<close>. In
  state RELEASED it always replies, in state HELD it always defers.
\<close>

theorem onRequest_decision:
  assumes "m_to m < length (nodes st)" and "m_type m = REQUEST"
  shows "\<exists>st'. processMessage m st = Inr st' \<and>
    (let R = nodes st ! m_to m
     in (repliesImmediately m st st' \<noteq> defersReply m st st') \<and>
        (n_state R = WANTED \<longrightarrow>
           (repliesImmediately m st st' \<longleftrightarrow>
              (m_timestamp m, m_from m) < (n_timestamp R, n_id R))) \<and>
        (n_state R = WANTED \<and> m_timestamp m = n_timestamp R \<longrightarrow>
           (repliesImmediately m st st' \<longleftrightarrow> m_from m < n_id R)) \<and>
        (n_state R = RELEASED \<longrightarrow> repliesImmediately m st st') \<and>
        (n_state R = HELD \<longrightarrow> defersReply m st st'))"
proof -
  let ?R = "nodes st ! m_to m"
  let ?R1 = "?R \<lparr> n_logicalClock := max (n_logicalClock ?R) (m_timestamp m) + 1 \<rparr>"
  show ?thesis
  proof (cases "shouldReply ?R1 m")
    case True
    let ?st' = "st \<lparr> nodes := (nodes st) [m_to m := ?R1],
                     timers := timers st @ [ReplyTimer (m_to m) (m_from m) None] \<rparr>"
    have p: "processMessage m st = Inr ?st'"
      using assms True by (simp add: processMessage_def Let_def)
    have r: "repliesImmediately m st ?st'"
      using assms by (simp add: repliesImmediately_def sendMessage_def replyMessage_def)
    have d: "\<not> defersReply m st ?st'"
      by (simp add: defersReply_def)
    have c: "n_state ?R = RELEASED \<or>
        (n_state ?R = WANTED \<and> (m_timestamp m, m_from m) < (n_timestamp ?R, n_id ?R))"
      using True by (auto simp: shouldReply_def less_prod_def less_le)
    show ?thesis
      using p r d c by (auto simp: Let_def less_prod_def)
  next
    case False
    let ?st' = "st \<lparr> nodes := (nodes st) [m_to m :=
         ?R1 \<lparr> n_deferredReplies := n_deferredReplies ?R1 @ [m_from m] \<rparr>] \<rparr>"
    have p: "processMessage m st = Inr ?st'"
      using assms False by (simp add: processMessage_def Let_def)
    have r: "\<not> repliesImmediately m st ?st'"
      by (simp add: repliesImmediately_def)
    have d: "defersReply m st ?st'"
      using assms by (simp add: defersReply_def)
    have c: "n_state ?R \<noteq> RELEASED \<and>
        (n_state ?R = WANTED \<longrightarrow>
           \<not> (m_timestamp m, m_from m) < (n_timestamp ?R, n_id ?R))"
      using False by (auto simp: shouldReply_def less_prod_def less_le)
    show ?thesis
      using p r d c by (auto simp: Let_def less_prod_def)
  qed
qed

theorem onRequest_decision_witness:
  "(m_to (requestFrom 0 1 1) < length (nodes wantedState) \<and>
    m_type (requestFrom 0 1 1) = REQUEST \<and>
    n_state (nodes wantedState ! 1) = WANTED \<and>
    n_timestamp (nodes wantedState ! 1) = 1 \<and>
    n_id (nodes wantedState ! 1) = 1) \<and>
   (\<exists>st' st''. processMessage (requestFrom 0 1 1) wantedState = Inr st' \<and>
      timers st' = timers wantedState @ [ReplyTimer 1 0 None] \<and>
      n_deferredReplies (nodes st' ! 1) = [] \<and>
      step (Timeout (length (timers wantedState)) (30, 0) (draws 0)) st' = Inr st'' \<and>
      messages st'' = messages st' @ [replyMessage (30, 0) 1 0 2]) \<and>
   (\<exists>st'. processMessage (requestFrom 2 1 1) wantedState = Inr st' \<and>
      timers st' = timers wantedState \<and>
      n_deferredReplies (nodes st' ! 1) = [2]) \<and>
   (\<exists>st' st''. processMessage (requestFrom 1 0 1) wantedState = Inr st' \<and>
      timers st' = timers wantedState @ [ReplyTimer 0 1 None] \<and>
      step (Timeout (length (timers wantedState)) (30, 0) (draws 0)) st' = Inr st'' \<and>
      messages st'' = messages st' @ [replyMessage (30, 0) 0 1 2]) \<and>
   (\<exists>st'. processMessage (requestFrom 1 0 2) heldState = Inr st' \<and>
      timers st' = timers heldState \<and>
      n_deferredReplies (nodes st' ! 0) = [1])"
proof -
  have w: "length (nodes wantedState) = 3 \<and>
      n_state (nodes wantedState ! 1) = WANTED \<and>
      n_timestamp (nodes wantedState ! 1) = 1 \<and>
      n_id (nodes wantedState ! 1) = 1 \<and>
      n_deferredReplies (nodes wantedState ! 1) = [] \<and>
      n_state (nodes wantedState ! 0) = RELEASED"
    by code_simp
  have h: "length (nodes heldState) = 3 \<and>
      n_state (nodes heldState ! 0) = HELD \<and>
      n_deferredReplies (nodes heldState ! 0) = []"
    by code_simp
  have k: "processMessage (requestFrom 0 1 1) wantedState = Inr st' \<Longrightarrow>
        n_logicalClock (nodes st' ! 1) = 2"
      "processMessage (requestFrom 1 0 1) wantedState = Inr st' \<Longrightarrow>
        n_logicalClock (nodes st' ! 0) = 2" for st'
  proof -
    have e: "n_logicalClock (nodes (stateOf (processMessage (requestFrom 0 1 1) wantedState)) ! 1) = 2 \<and>
      n_logicalClock (nodes (stateOf (processMessage (requestFrom 1 0 1) wantedState)) ! 0) = 2"
      by code_simp
    show "processMessage (requestFrom 0 1 1) wantedState = Inr st' \<Longrightarrow>
        n_logicalClock (nodes st' ! 1) = 2"
      using e by (simp add: stateOf_def)
    show "processMessage (requestFrom 1 0 1) wantedState = Inr st' \<Longrightarrow>
        n_logicalClock (nodes st' ! 0) = 2"
      using e by (simp add: stateOf_def)
  qed
  have m: "m_to (requestFrom f t ts) = t \<and> m_from (requestFrom f t ts) = f \<and>
      m_type (requestFrom f t ts) = REQUEST \<and> m_timestamp (requestFrom f t ts) = ts"
    for f t ts
    by (simp add: requestFrom_def)
  have a: "\<exists>st' st''. processMessage (requestFrom 0 1 1) wantedState = Inr st' \<and>
      timers st' = timers wantedState @ [ReplyTimer 1 0 None] \<and>
      n_deferredReplies (nodes st' ! 1) = [] \<and>
      step (Timeout (length (timers wantedState)) (30, 0) (draws 0)) st' = Inr st'' \<and>
      messages st'' = messages st' @ [replyMessage (30, 0) 1 0 2]"
  proof -
    from onRequest_decision [of "requestFrom 0 1 1" wantedState] w m
    obtain st' where p: "processMessage (requestFrom 0 1 1) wantedState = Inr st'"
      and r: "repliesImmediately (requestFrom 0 1 1) wantedState st'"
      by (auto simp: Let_def)
    from r obtain st'' where
      "step (Timeout (length (timers wantedState)) (30, 0) (draws 0)) st' = Inr st''"
      "messages st'' = messages st' @
         [replyMessage (30, 0) 1 0 (n_logicalClock (nodes st' ! 1))]"
      unfolding repliesImmediately_def using m by fastforce
    with p r w m k(1) [OF p] show ?thesis
      by (auto simp: repliesImmediately_def)
  qed
  have b: "\<exists>st'. processMessage (requestFrom 2 1 1) wantedState = Inr st' \<and>
      timers st' = timers wantedState \<and>
      n_deferredReplies (nodes st' ! 1) = [2]"
  proof -
    from onRequest_decision [of "requestFrom 2 1 1" wantedState] w m
    obtain st' where p: "processMessage (requestFrom 2 1 1) wantedState = Inr st'"
      and r: "defersReply (requestFrom 2 1 1) wantedState st'"
      by (auto simp: Let_def)
    with w m show ?thesis
      by (auto simp: defersReply_def)
  qed
  have c: "\<exists>st' st''. processMessage (requestFrom 1 0 1) wantedState = Inr st' \<and>
      timers st' = timers wantedState @ [ReplyTimer 0 1 None] \<and>
      step (Timeout (length (timers wantedState)) (30, 0) (draws 0)) st' = Inr st'' \<and>
      messages st'' = messages st' @ [replyMessage (30, 0) 0 1 2]"
  proof -
    from onRequest_decision [of "requestFrom 1 0 1" wantedState] w m
    obtain st' where p: "processMessage (requestFrom 1 0 1) wantedState = Inr st'"
      and r: "repliesImmediately (requestFrom 1 0 1) wantedState st'"
      by (auto simp: Let_def)
    from r obtain st'' where
      "step (Timeout (length (timers wantedState)) (30, 0) (draws 0)) st' = Inr st''"
      "messages st'' = messages st' @
         [replyMessage (30, 0) 0 1 (n_logicalClock (nodes st' ! 0))]"
      unfolding repliesImmediately_def using m by fastforce
    with p r w m k(2) [OF p] show ?thesis
      by (auto simp: repliesImmediately_def)
  qed
  have d: "\<exists>st'. processMessage (requestFrom 1 0 2) heldState = Inr st' \<and>
      timers st' = timers heldState \<and>
      n_deferredReplies (nodes st' ! 0) = [1]"
  proof -
    from onRequest_decision [of "requestFrom 1 0 2" heldState] h m
    obtain st' where p: "processMessage (requestFrom 1 0 2) heldState = Inr st'"
      and r: "defersReply (requestFrom 1 0 2) heldState st'"
      by (auto simp: Let_def)
    with h m show ?thesis
      by (auto simp: defersReply_def)
  qed
  show ?thesis
    using w m a b c d by simp
qed

subsection \<open>The effect of a REPLY\<close>

lemma removeAll_Nil_iff: "removeAll x xs = [] \<longleftrightarrow> set xs \<subseteq> {x}"
  by (induction xs) auto

text \<open>
  C3. A receiver \<open>R\<close> that handles a REPLY from \<open>S\<close> loses \<open>S\<close> from its pending
  replies, and nothing else; when \<open>S\<close> was not pending the set is unchanged. If \<open>R\<close> is
  WANTED and the set is now empty, \<open>R\<close> becomes HELD with \<open>criticalSectionTimer = 3\<close>;
  otherwise its state and timer stay as they were.
\<close>

theorem onReply_effect:
  assumes "m_to m < length (nodes st)" and "m_type m = REPLY"
  shows "\<exists>st'. processMessage m st = Inr st' \<and>
    (let R = nodes st ! m_to m;
         R' = nodes st' ! m_to m
     in set (n_pendingReplies R') = set (n_pendingReplies R) - {m_from m} \<and>
        (m_from m \<notin> set (n_pendingReplies R) \<longrightarrow>
           n_pendingReplies R' = n_pendingReplies R) \<and>
        (if n_state R = WANTED \<and> n_pendingReplies R' = []
         then n_state R' = HELD \<and> n_criticalSectionTimer R' = 3
         else n_state R' = n_state R \<and>
              n_criticalSectionTimer R' = n_criticalSectionTimer R))"
  using assms
  by (auto simp: processMessage_def Let_def set_delete_def set_size_def removeAll_Nil_iff)

theorem onReply_effect_witness:
  "(m_to (replyFrom 2 1 2) < length (nodes onePendingState) \<and>
    m_type (replyFrom 2 1 2) = REPLY \<and>
    n_state (nodes onePendingState ! 1) = WANTED \<and>
    n_pendingReplies (nodes onePendingState ! 1) = [2] \<and>
    n_criticalSectionTimer (nodes onePendingState ! 1) = 0) \<and>
   (\<exists>st'. processMessage (replyFrom 2 1 2) onePendingState = Inr st' \<and>
      n_pendingReplies (nodes st' ! 1) = [] \<and>
      n_state (nodes st' ! 1) = HELD \<and>
      n_criticalSectionTimer (nodes st' ! 1) = 3) \<and>
   (\<exists>st'. processMessage (replyFrom 0 1 2) onePendingState = Inr st' \<and>
      n_pendingReplies (nodes st' ! 1) = [2] \<and>
      n_state (nodes st' ! 1) = WANTED \<and>
      n_criticalSectionTimer (nodes st' ! 1) = 0)"
proof -
  have s: "length (nodes onePendingState) = 3 \<and>
      n_state (nodes onePendingState ! 1) = WANTED \<and>
      n_pendingReplies (nodes onePendingState ! 1) = [2] \<and>
      n_criticalSectionTimer (nodes onePendingState ! 1) = 0"
    by code_simp
  have m: "m_to (replyFrom f t ts) = t \<and> m_from (replyFrom f t ts) = f \<and>
      m_type (replyFrom f t ts) = REPLY"
    for f t ts
    by (simp add: replyFrom_def)
  have a: "\<exists>st'. processMessage (replyFrom 2 1 2) onePendingState = Inr st' \<and>
      n_pendingReplies (nodes st' ! 1) = [] \<and>
      n_state (nodes st' ! 1) = HELD \<and>
      n_criticalSectionTimer (nodes st' ! 1) = 3"
    using onReply_effect [of "replyFrom 2 1 2" onePendingState] s m
    by (auto simp: Let_def split: if_splits)
  have b: "\<exists>st'. processMessage (replyFrom 0 1 2) onePendingState = Inr st' \<and>
      n_pendingReplies (nodes st' ! 1) = [2] \<and>
      n_state (nodes st' ! 1) = WANTED \<and>
      n_criticalSectionTimer (nodes st' ! 1) = 0"
    using onReply_effect [of "replyFrom 0 1 2" onePendingState] s m
    by (auto simp: Let_def split: if_splits)
  show ?thesis
    using s m a b by simp
qed

subsection \<open>Issuing a request\<close>

lemma addPending_filter:
  "distinct xs \<Longrightarrow> set xs \<inter> set ps = {} \<Longrightarrow>
   addPending nodeId xs ps = ps @ filter (\<lambda>i. i \<noteq> nodeId) xs"
  by (induction xs arbitrary: ps) (auto simp: set_add_def)

lemma sendRequests_messages:
  "messages (sendRequests env nodeId ts xs st) =
     messages st @ map (requestTo env nodeId ts) (filter (\<lambda>i. i \<noteq> nodeId) xs)"
  by (induction xs arbitrary: st) (auto simp: sendMessage_def requestTo_def)

lemma sendRequests_nodes:
  "nodes (sendRequests env nodeId ts xs st) = nodes st"
  by (induction xs arbitrary: st) (auto simp: sendMessage_def)

lemma sendRequests_logicalClock:
  "logicalClock (sendRequests env nodeId ts xs st) = logicalClock st"
  by (induction xs arbitrary: st) (auto simp: sendMessage_def)

lemma requestCriticalSection_structure:
  assumes "nodeId < length (nodes st)" and "n_state (nodes st ! nodeId) = RELEASED"
  shows "\<exists>st'. requestCriticalSection captured env nodeId st = Inr st' \<and>
    (let N' = nodes st' ! nodeId;
         ts = max captured 0 + 1;
         others = filter (\<lambda>i. i \<noteq> nodeId) [0 ..< length (nodes st)]
     in n_state N' = WANTED \<and>
        n_timestamp N' = ts \<and>
        n_logicalClock N' = ts \<and>
        logicalClock st' = max (logicalClock st) 0 + 1 \<and>
        n_pendingReplies N' = others \<and>
        set (n_pendingReplies N') = {0 ..< length (nodes st)} - {nodeId} \<and>
        messages st' = messages st @ map (requestTo env nodeId ts) others)"
  using assms
  by (auto simp: requestCriticalSection_def Let_def updateLogicalClock_def
        addPending_filter sendRequests_messages sendRequests_nodes sendRequests_logicalClock)

text \<open>
  C4. The claim: a request makes the node WANTED, sets its request timestamp to the
  newly advanced clock value, fills its pending replies with the other ids and sends
  one REQUEST to every other node with that timestamp. The transition has this shape
  (\<open>requestCriticalSection_structure\<close>), but the timestamp is the value that
  \<open>updateLogicalClock()\<close> returns from its closure, \<open>max(captured, 0) + 1\<close>. In
  \<open>staleTrace\<close>, before node 0 requests, the component clock is 1 and the clock of
  node 0 is 2; the request is made through the closure of the interval, which holds 0.
  After it the component clock is 2, while the request timestamp of node 0, its
  clock and the timestamp of its two REQUESTs are 1.
\<close>

theorem requestCS_timestamp_lags_the_clock:
  "statesIn (run (take 8 staleTrace) mounted) = [RELEASED, WANTED, RELEASED] \<and>
   clocksIn (run (take 8 staleTrace) mounted) = [2, 1, 2] \<and>
   logicalClock (stateOf (run (take 8 staleTrace) mounted)) = 1 \<and>
   timers (stateOf (run (take 8 staleTrace) mounted)) =
     [DeliverTimer 30, DeliverTimer 32, RequestTimer 0 0] \<and>
   run (take 9 staleTrace) mounted =
     requestCriticalSection 0 (draws 20) 0
       ((stateOf (run (take 8 staleTrace) mounted))
          \<lparr> timers := [DeliverTimer 30, DeliverTimer 32] \<rparr>) \<and>
   statesIn (run (take 9 staleTrace) mounted) = [WANTED, WANTED, RELEASED] \<and>
   timestampsIn (run (take 9 staleTrace) mounted) = [1, 1, 0] \<and>
   clocksIn (run (take 9 staleTrace) mounted) = [1, 1, 2] \<and>
   logicalClock (stateOf (run (take 9 staleTrace) mounted)) = 2 \<and>
   sentIn (run (take 9 staleTrace) mounted) =
     [(1, 0, REQUEST, 1), (1, 2, REQUEST, 1), (0, 1, REPLY, 2), (2, 1, REPLY, 2),
      (0, 1, REQUEST, 1), (0, 2, REQUEST, 1)]"
  by code_simp

subsection \<open>Releasing the critical section\<close>

lemma sendReplies_messages:
  "messages (sendReplies env nodeId ts j ds st) =
     messages st @ map (replyTo env nodeId ts) (zip [j ..< j + length ds] ds)"
proof (induction ds arbitrary: j st)
  case Nil
  show ?case by simp
next
  case (Cons d ds)
  have "[j ..< j + length (d # ds)] = j # [Suc j ..< Suc j + length ds]"
    by (simp add: upt_rec)
  then show ?case
    by (simp add: Cons.IH sendMessage_def replyTo_def)
qed

lemma sendReplies_nodes: "nodes (sendReplies env nodeId ts j ds st) = nodes st"
  by (induction ds arbitrary: j st) (auto simp: sendMessage_def)

text \<open>
  The claim C5 as written also says that the release clears the request timestamp.
  The source leaves \<open>node.timestamp\<close> alone: node 0 holds timestamp 1 before and after
  its release.
\<close>

theorem release_keeps_requestTimestamp:
  "statesIn (run deferTrace mounted) = [HELD, WANTED, RELEASED] \<and>
   timestampsIn (run deferTrace mounted) = [1, 2, 0] \<and>
   statesIn (run deferReleaseTrace mounted) = [RELEASED, WANTED, RELEASED] \<and>
   timestampsIn (run deferReleaseTrace mounted) = [1, 2, 0]"
  by code_simp

text \<open>
  C5, amended. \<open>releaseCriticalSection\<close> on a HELD node with \<open>k\<close> deferred ids makes
  it RELEASED, appends exactly \<open>k\<close> REPLY messages, one per deferred id in order, each
  carrying the node's current clock, empties the deferred replies and sets
  \<open>criticalSectionTimer\<close> to 0 and \<open>inCriticalSection\<close> to false. The request timestamp
  and the clock keep their values.
\<close>

theorem releaseCS_effect:
  assumes "nodeId < length (nodes st)" and "n_state (nodes st ! nodeId) = HELD"
  shows "\<exists>st'. releaseCriticalSection env nodeId st = Inr st' \<and>
    (let N = nodes st ! nodeId;
         N' = nodes st' ! nodeId;
         k = length (n_deferredReplies N);
         emitted = map (replyTo env nodeId (n_logicalClock N))
                     (zip [0 ..< k] (n_deferredReplies N))
     in n_state N' = RELEASED \<and>
        messages st' = messages st @ emitted \<and>
        length emitted = k \<and>
        map m_to emitted = n_deferredReplies N \<and>
        n_deferredReplies N' = [] \<and>
        n_criticalSectionTimer N' = 0 \<and>
        n_inCriticalSection N' = False \<and>
        n_timestamp N' = n_timestamp N \<and>
        n_logicalClock N' = n_logicalClock N)"
  using assms
  by (auto simp: releaseCriticalSection_def Let_def sendReplies_messages sendReplies_nodes
        replyTo_def comp_def map_nth intro: nth_equalityI)

theorem releaseCS_effect_witness:
  "(0 < length (nodes deferState) \<and> n_state (nodes deferState ! 0) = HELD \<and>
    n_deferredReplies (nodes deferState ! 0) = [1] \<and>
    n_logicalClock (nodes deferState ! 0) = 5 \<and>
    n_timestamp (nodes deferState ! 0) = 1) \<and>
   (\<exists>st'. releaseCriticalSection (draws 70) 0 deferState = Inr st' \<and>
      n_state (nodes st' ! 0) = RELEASED \<and>
      messages st' = messages deferState @ [replyTo (draws 70) 0 5 (0, 1)] \<and>
      n_deferredReplies (nodes st' ! 0) = [] \<and>
      n_criticalSectionTimer (nodes st' ! 0) = 0 \<and>
      n_timestamp (nodes st' ! 0) = 1)"
proof -
  have s: "0 < length (nodes deferState) \<and> n_state (nodes deferState ! 0) = HELD \<and>
      n_deferredReplies (nodes deferState ! 0) = [1] \<and>
      n_logicalClock (nodes deferState ! 0) = 5 \<and>
      n_timestamp (nodes deferState ! 0) = 1"
    by code_simp
  show ?thesis
    using releaseCS_effect [of 0 deferState "draws 70"] s
    by (auto simp: Let_def)
qed

subsection \<open>The logical clock\<close>

text \<open>
  C6. The claim: the tick stores \<open>max(c, t) + 1\<close> and returns that same value. The stored
  value is computed from the state, the returned one from the closure. With the
  stored clock at 1 and a closure created when it was 0, the call stores 2 and
  returns 1.
\<close>

theorem updateLogicalClock_returns_stale_value:
  "fst (updateLogicalClock 0 0 (mounted \<lparr> logicalClock := 1 \<rparr>)) = 1 \<and>
   logicalClock (snd (updateLogicalClock 0 0 (mounted \<lparr> logicalClock := 1 \<rparr>))) = 2"
  by (simp add: updateLogicalClock_def)

text \<open>In a closure of the current render the two values agree.\<close>

lemma updateLogicalClock_fresh:
  "fst (updateLogicalClock (logicalClock st) t st) = max (logicalClock st) t + 1 \<and>
   logicalClock (snd (updateLogicalClock (logicalClock st) t st)) = max (logicalClock st) t + 1"
  by (simp add: updateLogicalClock_def)

subsection \<open>The clocks of the nodes\<close>





















subsection \<open>Delivering a message twice\<close>

lemma find_markDelivered:
  "find (\<lambda>x. m_id x = k) (map (markDelivered k) ms) =
     map_option (markDelivered k) (find (\<lambda>x. m_id x = k) ms)"
  by (induction ms) (auto simp: markDelivered_def)

lemma find_distinct_ids:
  "m \<in> set ms \<Longrightarrow> distinct (map m_id ms) \<Longrightarrow> find (\<lambda>x. m_id x = m_id m) ms = Some m"
  by (induction ms) auto

lemma deliverMessage_twice:
  assumes d: "deliverMessage k st = Inr st'"
  shows "deliverMessage k st' = Inr st'"
proof (cases "find (\<lambda>x. m_id x = k) (messages st)")
  case None
  with d show ?thesis by (simp add: deliverMessage_def)
next
  case (Some m)
  show ?thesis
  proof (cases "m_delivered m")
    case True
    with d Some show ?thesis by (simp add: deliverMessage_def)
  next
    case False
    with d Some obtain st1 where
      e: "st' = st1 \<lparr> messages := map (markDelivered k) (messages st) \<rparr>"
      by (auto simp: deliverMessage_def split: sum.splits)
    have "find (\<lambda>x. m_id x = k) (messages st') = Some (markDelivered k m)"
      using Some e by (simp add: find_markDelivered)
    moreover have "m_id m = k"
      using Some by (auto simp: find_Some_iff)
    ultimately show ?thesis
      by (simp add: deliverMessage_def markDelivered_def)
  qed
qed

text \<open>
  C8. \<open>deliverMessage\<close> on the id of a message that is marked delivered returns the
  state it was given: no node changes, no callback is scheduled, the messages are the
  same. This holds when the lookup by id finds a delivered message, in particular for
  every delivered message when ids are unique; and a second \<open>deliverMessage\<close> with
  the same id, right after the first, changes nothing.
\<close>

theorem redelivery_is_noop:
  "(find (\<lambda>x. m_id x = k) (messages st) = Some m \<and> m_delivered m \<longrightarrow>
      deliverMessage k st = Inr st) \<and>
   (m \<in> set (messages st) \<and> m_delivered m \<and> distinct (map m_id (messages st)) \<longrightarrow>
      deliverMessage (m_id m) st = Inr st) \<and>
   (deliverMessage k st = Inr st' \<longrightarrow> deliverMessage k st' = Inr st')"
proof (intro conjI impI)
  assume "find (\<lambda>x. m_id x = k) (messages st) = Some m \<and> m_delivered m"
  then show "deliverMessage k st = Inr st"
    by (simp add: deliverMessage_def)
next
  assume "m \<in> set (messages st) \<and> m_delivered m \<and> distinct (map m_id (messages st))"
  then show "deliverMessage (m_id m) st = Inr st"
    by (simp add: deliverMessage_def find_distinct_ids)
next
  assume "deliverMessage k st = Inr st'"
  then show "deliverMessage k st' = Inr st'"
    by (rule deliverMessage_twice)
qed

theorem redelivery_is_noop_witness:
  "(find (\<lambda>x. m_id x = 11) (messages heldState) = Some deliveredRequest \<and>
    m_delivered deliveredRequest \<and>
    deliverMessage 11 heldState = Inr heldState) \<and>
   (deliveredRequest \<in> set (messages heldState) \<and>
    distinct (map m_id (messages heldState)) \<and>
    deliverMessage (m_id deliveredRequest) heldState = Inr heldState) \<and>
   (deliverMessage 11 requestedState = Inr (stateOf (deliverMessage 11 requestedState)) \<and>
    clocks requestedState = [1, 0, 0] \<and>
    clocks (stateOf (deliverMessage 11 requestedState)) = [1, 2, 0] \<and>
    deliverMessage 11 (stateOf (deliverMessage 11 requestedState))
      = Inr (stateOf (deliverMessage 11 requestedState)))"
proof -
  have a: "find (\<lambda>x. m_id x = 11) (messages heldState) = Some deliveredRequest \<and>
    m_delivered deliveredRequest"
    by code_simp
  have b: "deliveredRequest \<in> set (messages heldState) \<and>
    distinct (map m_id (messages heldState))"
    by code_simp
  have c: "deliverMessage 11 requestedState = Inr (stateOf (deliverMessage 11 requestedState)) \<and>
    clocks requestedState = [1, 0, 0] \<and>
    clocks (stateOf (deliverMessage 11 requestedState)) = [1, 2, 0]"
    by code_simp
  have a': "deliverMessage 11 heldState = Inr heldState"
    using redelivery_is_noop [of 11 heldState deliveredRequest] a by blast
  have b': "deliverMessage (m_id deliveredRequest) heldState = Inr heldState"
    using redelivery_is_noop [of _ heldState deliveredRequest] a b by blast
  have c': "deliverMessage 11 (stateOf (deliverMessage 11 requestedState))
      = Inr (stateOf (deliverMessage 11 requestedState))"
    using redelivery_is_noop
      [of 11 requestedState _ "stateOf (deliverMessage 11 requestedState)"] c
    by blast
  show ?thesis
    using a b c a' b' c' by simp
qed

subsection \<open>Operations in the wrong state\<close>

text \<open>
  C9. \<open>requestCriticalSection\<close> on a node that is not RELEASED and
  \<open>releaseCriticalSection\<close> on a node that is not HELD return the state they were
  given, and no error.
\<close>

theorem invalid_operations_are_noops:
  "(nodeId < length (nodes st) \<and> n_state (nodes st ! nodeId) \<noteq> RELEASED \<longrightarrow>
      requestCriticalSection captured env nodeId st = Inr st) \<and>
   (nodeId < length (nodes st) \<and> n_state (nodes st ! nodeId) \<noteq> HELD \<longrightarrow>
      releaseCriticalSection env nodeId st = Inr st)"
  by (simp add: requestCriticalSection_def releaseCriticalSection_def Let_def)

theorem invalid_operations_are_noops_witness:
  "(0 < length (nodes heldState) \<and>
    n_state (nodes heldState ! 0) \<noteq> RELEASED) \<and>
   requestCriticalSection 7 (draws 80) 0 heldState
     = Inr heldState \<and>
   (1 < length (nodes heldState) \<and>
    n_state (nodes heldState ! 1) \<noteq> HELD) \<and>
   releaseCriticalSection (draws 80) 1 heldState
     = Inr heldState"
proof -
  have h0: "0 < length (nodes heldState) \<and>
    n_state (nodes heldState ! 0) \<noteq> RELEASED"
    by code_simp
  have h1: "1 < length (nodes heldState) \<and>
    n_state (nodes heldState ! 1) \<noteq> HELD"
    by code_simp
  show ?thesis
    using h0 h1
      invalid_operations_are_noops [of 0 heldState 7 "draws 80"]
      invalid_operations_are_noops [of 1 heldState 7 "draws 80"]
    by blast
qed

subsection \<open>Initialising with any count\<close>

text \<open>
  The claim C10 as written says that a count below 2 is rejected and the state kept.
  \<open>initializeNodes(1)\<close> on a state with three nodes, two messages and clock 1 leaves
  one node, no message and clock 0; \<open>initializeNodes(0)\<close> leaves no node.
\<close>

theorem initializeNodes_count_one_mutates:
  "length (nodes requestedState) = 3 \<and>
   sentIn (Inr requestedState) = [(0, 1, REQUEST, 1), (0, 2, REQUEST, 1)] \<and>
   logicalClock requestedState = 1 \<and>
   length (nodes (initializeNodes 1 requestedState)) = 1 \<and>
   messages (initializeNodes 1 requestedState) = [] \<and>
   logicalClock (initializeNodes 1 requestedState) = 0 \<and>
   nodes (initializeNodes 0 requestedState) = []"
  by code_simp

text \<open>
  C10, amended. \<open>initializeNodes\<close> tests nothing: for every count, below 2 or not, it
  installs \<open>max(count, 0)\<close> fresh RELEASED nodes with ids from 0, empties the messages
  and sets the component clock to 0.
\<close>

theorem initializeNodes_accepts_any_count:
  "nodes (initializeNodes count st) = map newNode [0 ..< nat count] \<and>
   length (nodes (initializeNodes count st)) = nat count \<and>
   map n_state (nodes (initializeNodes count st)) = replicate (nat count) RELEASED \<and>
   messages (initializeNodes count st) = [] \<and>
   logicalClock (initializeNodes count st) = 0"
  by (simp add: initializeNodes_def newNode_def comp_def map_replicate_const)

subsection \<open>The release at the last tick of an occupancy\<close>

text \<open>
  When the release runs inside the walk of \<open>simulationStep\<close>, the node is RELEASED at
  the test that follows and is scheduled a request in the same tick; when it runs
  after the walk, it is not.
\<close>

lemma release_inside_or_after_the_walk:
  "statesIn (run (expiryTrace True) mounted) = [RELEASED, RELEASED, RELEASED] \<and>
   timers (stateOf (run (expiryTrace True) mounted)) = [RequestTimer 1 0] \<and>
   statesIn (run (expiryTrace False) mounted) = [RELEASED, RELEASED, RELEASED] \<and>
   timers (stateOf (run (expiryTrace False) mounted)) = []"
  by code_simp

end
